theory Spec2Isabelle
  imports Main
begin

section \<open>Python text and numbers used by main.py\<close>

text \<open>
  Text is ASCII: a \<open>char\<close> stands for the code point of the same number below 128.
  \<open>upper\<close> is \<open>str.upper()\<close> on such text: the letters a-z move to A-Z, every other
  character stays.
\<close>

definition upper_char :: "char \<Rightarrow> char" where
  "upper_char c =
     (let n = (of_char c :: int) in if 97 \<le> n \<and> n \<le> 122 then char_of (n - 32) else c)"

definition upper :: "string \<Rightarrow> string" where
  "upper s = map upper_char s"

definition lower_char :: "char \<Rightarrow> char" where
  "lower_char c =
     (let n = (of_char c :: int) in if 65 \<le> n \<and> n \<le> 90 then char_of (n + 32) else c)"

definition is_digit :: "char \<Rightarrow> bool" where
  "is_digit c = (let n = (of_char c :: int) in 48 \<le> n \<and> n \<le> 57)"

definition is_space :: "char \<Rightarrow> bool" where
  \<comment> \<open>the ASCII white space that \<open>float()\<close> and \<open>int()\<close> skip: tab, newline, vertical tab,
      form feed, carriage return, space\<close>
  "is_space c = (let n = (of_char c :: int) in (9 \<le> n \<and> n \<le> 13) \<or> n = 32)"

definition strip :: "string \<Rightarrow> string" where
  "strip s = rev (dropWhile is_space (rev (dropWhile is_space s)))"

text \<open>
  The underscore rule of Python's numeric literals in \<open>float()\<close> and \<open>int()\<close>: an
  underscore stands only between two digits. \<open>prev\<close> is the character before.
\<close>

fun underscores_ok :: "char \<Rightarrow> string \<Rightarrow> bool" where
  "underscores_ok prev [] = (prev \<noteq> CHR ''_'')"
| "underscores_ok prev (c # cs) =
     (if c = CHR ''_'' then is_digit prev \<and> underscores_ok c cs
      else (prev = CHR ''_'' \<longrightarrow> is_digit c) \<and> underscores_ok c cs)"

definition digit_val :: "char \<Rightarrow> int" where
  "digit_val c = of_char c - 48"

definition int_of_digits :: "string \<Rightarrow> int" where
  "int_of_digits s = foldl (\<lambda>acc c. acc * 10 + digit_val c) 0 s"

function digits_of_int :: "int \<Rightarrow> string" where
  \<comment> \<open>the decimal digits of a number that is not negative\<close>
  "digits_of_int n =
     (if n < 10 then [char_of (48 + n)]
      else digits_of_int (n div 10) @ [char_of (48 + n mod 10)])"
  by pat_completeness auto
termination
  by (relation "measure nat") auto

subsection \<open>int()\<close>

text \<open>
  \<open>int(s)\<close> for a string in base 10: surrounding white space, one optional sign, digits
  with single underscores between them. \<open>None\<close> is the \<open>ValueError\<close>. (The interpreter's
  optional limit on the number of digits is not part of the model.)
\<close>

definition int_py :: "string \<Rightarrow> int option" where
  "int_py s =
     (let t = strip s;
          neg = (t \<noteq> [] \<and> hd t = CHR ''-'');
          body = (if t \<noteq> [] \<and> (hd t = CHR ''-'' \<or> hd t = CHR ''+'') then tl t else t);
          ds = filter (\<lambda>c. c \<noteq> CHR ''_'') body
      in if body \<noteq> [] \<and> underscores_ok (CHR 0x00) body \<and> ds \<noteq> [] \<and> list_all is_digit ds
         then Some (if neg then - int_of_digits ds else int_of_digits ds)
         else None)"

subsection \<open>float\<close>

text \<open>
  A Python float is an IEEE 754 binary64 value. \<open>Finite neg m e\<close> is
  \<open>(-1)^neg * m * 2^e\<close> in the format's own normal form: \<open>2^52 \<le> m < 2^53\<close> and
  \<open>-1074 \<le> e \<le> 971\<close>, or \<open>m < 2^52\<close> and \<open>e = -1074\<close> (subnormal numbers and the two
  zeros).
\<close>

datatype pyfloat = Finite bool int int | Infinite bool | NaN

text \<open>\<open>ilog b num den\<close> is the integer part of the logarithm: \<open>floor (log b (num / den))\<close>.\<close>

function ilog_up :: "int \<Rightarrow> int \<Rightarrow> int \<Rightarrow> int" where
  "ilog_up b num den =
     (if 2 \<le> b \<and> 0 < den \<and> den * b \<le> num then 1 + ilog_up b num (den * b) else 0)"
  by pat_completeness auto
termination
proof (relation "measure (\<lambda>(b, num, den). nat (num - den))")
  show "wf (measure (\<lambda>(b, num, den). nat (num - den)))" by simp
next
  fix b num den :: int
  assume a: "2 \<le> b \<and> 0 < den \<and> den * b \<le> num"
  then have "den * 2 \<le> den * b" by simp
  with a have "den < den * b" by linarith
  with a have "nat (num - den * b) < nat (num - den)" by linarith
  then show "((b, num, den * b), (b, num, den)) \<in> measure (\<lambda>(b, num, den). nat (num - den))"
    by simp
qed

function ilog_down :: "int \<Rightarrow> int \<Rightarrow> int \<Rightarrow> int" where
  "ilog_down b num den =
     (if 2 \<le> b \<and> 0 < num \<and> num < den then 1 + ilog_down b (num * b) den else 0)"
  by pat_completeness auto
termination
proof (relation "measure (\<lambda>(b, num, den). nat (den - num))")
  show "wf (measure (\<lambda>(b, num, den). nat (den - num)))" by simp
next
  fix b num den :: int
  assume a: "2 \<le> b \<and> 0 < num \<and> num < den"
  then have "num * 2 \<le> num * b" by simp
  with a have "num < num * b" by linarith
  with a have "nat (den - num * b) < nat (den - num)" by linarith
  then show "((b, num * b, den), (b, num, den)) \<in> measure (\<lambda>(b, num, den). nat (den - num))"
    by simp
qed

definition ilog :: "int \<Rightarrow> int \<Rightarrow> int \<Rightarrow> int" where
  "ilog b num den = (if den \<le> num then ilog_up b num den else - ilog_down b num den)"

definition round_half_even :: "int \<Rightarrow> int \<Rightarrow> int" where
  \<comment> \<open>the integer nearest to \<open>a / b\<close>, a tie going to the even one\<close>
  "round_half_even a b =
     (let q = a div b; r = a mod b
      in if 2 * r < b then q
         else if b < 2 * r then q + 1
         else if even q then q else q + 1)"

definition scale :: "int \<Rightarrow> int \<Rightarrow> int \<Rightarrow> int \<Rightarrow> int \<times> int" where
  \<comment> \<open>the fraction \<open>(num / den) / b^k\<close>\<close>
  "scale num den b k =
     (if 0 \<le> k then (num, den * b ^ nat k) else (num * b ^ nat (- k), den))"

definition round_double :: "int \<Rightarrow> int \<Rightarrow> (int \<times> int) option" where
  \<comment> \<open>\<open>num / den\<close> rounded to the nearest binary64 magnitude, ties to even; \<open>None\<close> is
      overflow\<close>
  "round_double num den =
     (if num = 0 then Some (0, - 1074)
      else
        let q = max (ilog 2 num den - 52) (- 1074);
            (a, b) = scale num den 2 q;
            n = round_half_even a b;
            (n', q') = (if n = 2 ^ 53 then (2 ^ 52, q + 1) else (n, q))
        in if 971 < q' then None else Some (n', q'))"

definition le_zero :: "pyfloat \<Rightarrow> bool" where
  \<comment> \<open>the comparison \<open>x <= 0\<close>; false on nan\<close>
  "le_zero x = (case x of Finite neg m e \<Rightarrow> neg \<or> m = 0 | Infinite neg \<Rightarrow> neg | NaN \<Rightarrow> False)"

text \<open>
  \<open>float(s)\<close> for a string: surrounding white space, the underscore rule, one optional
  sign, then \<open>inf\<close>, \<open>infinity\<close> or \<open>nan\<close> in any casing, or a decimal numeral with an
  optional fraction and an optional exponent, rounded to the nearest float. \<open>None\<close> is
  the \<open>ValueError\<close>.
\<close>

definition float_py :: "string \<Rightarrow> pyfloat option" where
  "float_py s =
     (let t = strip s;
          u = filter (\<lambda>c. c \<noteq> CHR ''_'') t;
          neg = (u \<noteq> [] \<and> hd u = CHR ''-'');
          v = (if u \<noteq> [] \<and> (hd u = CHR ''-'' \<or> hd u = CHR ''+'') then tl u else u);
          lw = map lower_char v;
          ip = takeWhile is_digit v;
          r1 = dropWhile is_digit v;
          fp = (if r1 \<noteq> [] \<and> hd r1 = CHR ''.'' then takeWhile is_digit (tl r1) else []);
          r2 = (if r1 \<noteq> [] \<and> hd r1 = CHR ''.'' then dropWhile is_digit (tl r1) else r1);
          has_exp = (r2 \<noteq> [] \<and> (hd r2 = CHR ''e'' \<or> hd r2 = CHR ''E''));
          r3 = tl r2;
          eneg = (r3 \<noteq> [] \<and> hd r3 = CHR ''-'');
          ed = (if r3 \<noteq> [] \<and> (hd r3 = CHR ''-'' \<or> hd r3 = CHR ''+'') then tl r3 else r3);
          ex = (if has_exp then (if eneg then - int_of_digits ed else int_of_digits ed)
                else 0)
      in if \<not> underscores_ok (CHR 0x00) t then None
         else if lw = ''inf'' \<or> lw = ''infinity'' then Some (Infinite neg)
         else if lw = ''nan'' then Some NaN
         else if ip = [] \<and> fp = [] then None
         else if has_exp \<and> (ed = [] \<or> \<not> list_all is_digit ed) then None
         else if \<not> has_exp \<and> r2 \<noteq> [] then None
         else
           let (num, den) = scale (int_of_digits (ip @ fp)) 1 10 (int (length fp) - ex)
           in (case round_double num den of
                 None \<Rightarrow> Some (Infinite neg)
               | Some (m, e) \<Rightarrow> Some (Finite neg m e)))"

text \<open>
  \<open>str(x)\<close> of a float is its \<open>repr\<close>: the shortest decimal digits that \<open>float()\<close> reads
  back as \<open>x\<close>, the nearest to \<open>x\<close> among the shortest. \<open>shortest_digits n m e decpt\<close>
  tries \<open>n\<close>, \<open>n + 1\<close>, ... significant digits for \<open>m * 2^e\<close>, a number below
  \<open>10^decpt\<close>; its result \<open>(c, k)\<close> is the decimal \<open>c * 10^k\<close>. Seventeen digits
  identify every float, so after them the nearest decimal is taken as it is.
\<close>

definition reads_back :: "int \<Rightarrow> int \<Rightarrow> int \<Rightarrow> int \<Rightarrow> bool" where
  "reads_back c k m e =
     (let (cn, cd) = scale c 1 10 (- k) in round_double cn cd = Some (m, e))"

function shortest_digits :: "int \<Rightarrow> int \<Rightarrow> int \<Rightarrow> int \<Rightarrow> int \<times> int" where
  "shortest_digits n m e decpt =
     (let k = decpt - n;
          (vn, vd) = scale m 1 2 (- e);
          (xn, xd) = scale vn vd 10 k;
          lo = xn div xd;
          r = xn mod xd;
          nearest = (if 2 * r < xd \<or> (2 * r = xd \<and> even lo) then lo else lo + 1)
      in if 17 < n then (round_half_even xn xd, k)
         else if r = 0 then (lo, k)
         else if reads_back lo k m e \<and> reads_back (lo + 1) k m e then (nearest, k)
         else if reads_back lo k m e then (lo, k)
         else if reads_back (lo + 1) k m e then (lo + 1, k)
         else shortest_digits (n + 1) m e decpt)"
  by pat_completeness auto
termination
  by (relation "measure (\<lambda>(n, m, e, decpt). nat (18 - n))") auto

definition rstrip_zeros :: "string \<Rightarrow> string" where
  "rstrip_zeros s = rev (dropWhile (\<lambda>c. c = CHR ''0'') (rev s))"

definition repr_digits :: "int \<Rightarrow> int \<Rightarrow> int \<times> int" where
  \<comment> \<open>the shortest digits of \<open>m * 2^e\<close>, for \<open>0 < m\<close>\<close>
  "repr_digits m e =
     (let (vn, vd) = scale m 1 2 (- e) in shortest_digits 1 m e (ilog 10 vn vd + 1))"

definition format_repr :: "bool \<Rightarrow> int \<Rightarrow> int \<Rightarrow> string" where
  \<comment> \<open>the layout of \<open>repr\<close>: exponent notation when the decimal point would stand more
      than three zeros before the digits or more than sixteen places after the first\<close>
  "format_repr neg c k =
     (let sg = (if neg then ''-'' else []);
          decpt = int (length (digits_of_int c)) + k;
          ds = rstrip_zeros (digits_of_int c);
          nd = int (length ds);
          ex = decpt - 1;
          es = digits_of_int (abs ex)
      in if decpt \<le> - 4 \<or> 16 < decpt then
           sg @ [hd ds] @ (if 1 < nd then ''.'' @ tl ds else []) @ ''e''
           @ (if ex < 0 then ''-'' else ''+'')
           @ (if length es < 2 then ''0'' @ es else es)
         else if decpt \<le> 0 then sg @ ''0.'' @ replicate (nat (- decpt)) (CHR ''0'') @ ds
         else if nd \<le> decpt then sg @ ds @ replicate (nat (decpt - nd)) (CHR ''0'') @ ''.0''
         else sg @ take (nat decpt) ds @ ''.'' @ drop (nat decpt) ds)"

definition float_repr :: "pyfloat \<Rightarrow> string" where
  "float_repr x =
     (case x of
        NaN \<Rightarrow> ''nan''
      | Infinite neg \<Rightarrow> (if neg then ''-inf'' else ''inf'')
      | Finite neg m e \<Rightarrow>
          (if m = 0 then (if neg then ''-0.0'' else ''0.0'')
           else case repr_digits m e of (c, k) \<Rightarrow> format_repr neg c k))"

section \<open>Payloads, exceptions and the exchange client\<close>

text \<open>
  The values the exchange client returns are parsed JSON. A Python \<open>dict\<close> keeps its
  keys in insertion order, so it is an association list; \<open>key in d\<close> is \<open>has_key\<close> and
  \<open>d[key]\<close> is \<open>map_of d key\<close>, \<open>None\<close> being the \<open>KeyError\<close>.
\<close>

datatype json =
    JNull
  | JBool bool
  | JInt int
  | JFloat pyfloat
  | JStr string
  | JList "json list"
  | JDict "(string \<times> json) list"

type_synonym dict = "(string \<times> json) list"

definition has_key :: "dict \<Rightarrow> string \<Rightarrow> bool" where
  "has_key d k = (map_of d k \<noteq> None)"

text \<open>
  What the attribute \<open>e.response\<close> of a caught exception is: not there at all (reading it
  raises \<open>AttributeError\<close>), \<open>None\<close>, or a response object. \<open>HttpResponse truthy body\<close>
  is an object whose truth value is \<open>truthy\<close> and whose \<open>json()\<close> returns the parsed body
  \<open>Inr j\<close> or raises an exception with message \<open>Inl msg\<close>.
\<close>

datatype response = NoAttribute | NoneResponse | HttpResponse bool "string + json"

text \<open>
  The exceptions of the model, each with what \<open>str(e)\<close> needs. The first two are the
  client library's classes, with their message and their \<open>response\<close>; \<open>OtherException\<close>
  is any other subclass of \<open>Exception\<close>.
\<close>

datatype exn =
    BinanceAPIException string response
  | BinanceOrderException string response
  | ValueError string
  | KeyError string
  | AttributeError string
  | OtherException string

fun str_exn :: "exn \<Rightarrow> string" where
  "str_exn (BinanceAPIException msg r) = msg"
| "str_exn (BinanceOrderException msg r) = msg"
| "str_exn (ValueError msg) = msg"
| "str_exn (KeyError k) = [CHR 0x27] @ k @ [CHR 0x27]"
| "str_exn (AttributeError msg) = msg"
| "str_exn (OtherException msg) = msg"

text \<open>
  The client handle of the library (\<open>binance.client.Client\<close>) with the attributes
  main.py sets. \<open>API_URL = None\<close> is the library's own endpoint, left as it is.
\<close>

record Client =
  API_KEY :: string
  API_SECRET :: string
  API_URL :: "string option"

type_synonym kwargs = "(string \<times> json) list"

text \<open>
  What the client library does for main.py. \<open>Client_init k s\<close> is the constructor call
  \<open>Client(k, s)\<close>, which contacts the exchange: \<open>None\<close> when it returns the handle,
  \<open>Some e\<close> when it raises \<open>e\<close>. The four other fields are the calls of the methods:
  each returns its payload (\<open>Inr\<close>) or raises (\<open>Inl\<close>); a call with keyword arguments is
  given them in the order written.
\<close>

record exchange =
  Client_init :: "string \<Rightarrow> string \<Rightarrow> exn option"
  futures_time :: "Client \<Rightarrow> exn + dict"
  futures_create_order :: "Client \<Rightarrow> kwargs \<Rightarrow> exn + dict"
  futures_get_order :: "Client \<Rightarrow> kwargs \<Rightarrow> exn + dict"
  futures_account_balance :: "Client \<Rightarrow> exn + dict list"

text \<open>The library's constants \<open>Client.ORDER_TYPE_MARKET\<close>, \<open>Client.ORDER_TYPE_LIMIT\<close> and
  \<open>Client.TIME_IN_FORCE_GTC\<close>.\<close>

definition ORDER_TYPE_MARKET :: string where
  "ORDER_TYPE_MARKET = ''MARKET''"

definition ORDER_TYPE_LIMIT :: string where
  "ORDER_TYPE_LIMIT = ''LIMIT''"

definition TIME_IN_FORCE_GTC :: string where
  "TIME_IN_FORCE_GTC = ''GTC''"

section \<open>BasicBot\<close>

definition TESTNET_BASE_URL :: string where
  "TESTNET_BASE_URL = ''https://testnet.binancefuture.com''"

record BasicBot =
  client :: Client

definition not_py :: "string option \<Rightarrow> bool" where
  \<comment> \<open>\<open>not x\<close> for a value that is \<open>None\<close> or a string\<close>
  "not_py x = (x = None \<or> x = Some [])"

definition BasicBot_init ::
  "exchange \<Rightarrow> string option \<Rightarrow> string option \<Rightarrow> bool \<Rightarrow> exn + BasicBot" where
  "BasicBot_init ex api_key api_secret testnet =
     (if not_py api_key \<or> not_py api_secret
      then Inl (ValueError ''API Key and API Secret are required.'')
      else
        (case Client_init ex (the api_key) (the api_secret) of
           Some e \<Rightarrow> Inl e
         | None \<Rightarrow>
             Inr \<lparr>client = \<lparr>API_KEY = the api_key, API_SECRET = the api_secret,
                               API_URL = (if testnet then Some (TESTNET_BASE_URL @ ''/fapi'')
                                          else None)\<rparr>\<rparr>))"

text \<open>
  The expression \<open>e.response.json() if e.response else "No response details"\<close> of the
  handlers. It is evaluated inside the \<open>except\<close> clause, so what it raises leaves the
  method.
\<close>

fun details :: "response \<Rightarrow> exn + json" where
  "details NoAttribute = Inl (AttributeError ''response'')"
| "details NoneResponse = Inr (JStr ''No response details'')"
| "details (HttpResponse truthy body) =
     (if truthy then (case body of Inl msg \<Rightarrow> Inl (OtherException msg) | Inr j \<Rightarrow> Inr j)
      else Inr (JStr ''No response details''))"

definition error_with_details :: "string \<Rightarrow> response \<Rightarrow> exn + dict" where
  \<comment> \<open>the dictionary display \<open>{"error": str(e), "details": ...}\<close>\<close>
  "error_with_details msg r =
     (case details r of
        Inl x \<Rightarrow> Inl x
      | Inr d \<Rightarrow> Inr [(''error'', JStr msg), (''details'', d)])"

definition get_server_time :: "exchange \<Rightarrow> BasicBot \<Rightarrow> exn + dict" where
  "get_server_time ex self =
     (case futures_time ex (client self) of
        Inr server_time \<Rightarrow>
          (case map_of server_time ''serverTime'' of
             None \<Rightarrow> Inr [(''error'', JStr (str_exn (KeyError ''serverTime'')))]
           | Some t \<Rightarrow> Inr server_time)
      | Inl (BinanceAPIException msg r) \<Rightarrow> Inr [(''error'', JStr msg)]
      | Inl e \<Rightarrow> Inr [(''error'', JStr (str_exn e))])"

definition market_order_kwargs :: "string \<Rightarrow> string \<Rightarrow> pyfloat \<Rightarrow> kwargs" where
  "market_order_kwargs symbol side quantity =
     [(''symbol'', JStr (upper symbol)),
      (''side'', JStr (upper side)),
      (''type'', JStr ORDER_TYPE_MARKET),
      (''quantity'', JFloat quantity)]"

definition place_market_order ::
  "exchange \<Rightarrow> BasicBot \<Rightarrow> string \<Rightarrow> string \<Rightarrow> pyfloat \<Rightarrow> exn + dict" where
  "place_market_order ex self symbol side quantity =
     (case futures_create_order ex (client self) (market_order_kwargs symbol side quantity) of
        Inr order \<Rightarrow> Inr order
      | Inl (BinanceAPIException msg r) \<Rightarrow> error_with_details msg r
      | Inl (BinanceOrderException msg r) \<Rightarrow> error_with_details msg r
      | Inl e \<Rightarrow> Inr [(''error'', JStr (str_exn e))])"

definition limit_order_kwargs :: "string \<Rightarrow> string \<Rightarrow> pyfloat \<Rightarrow> pyfloat \<Rightarrow> kwargs" where
  "limit_order_kwargs symbol side quantity price =
     [(''symbol'', JStr (upper symbol)),
      (''side'', JStr (upper side)),
      (''type'', JStr ORDER_TYPE_LIMIT),
      (''timeInForce'', JStr TIME_IN_FORCE_GTC),
      (''quantity'', JFloat quantity),
      (''price'', JStr (float_repr price))]"

definition place_limit_order ::
  "exchange \<Rightarrow> BasicBot \<Rightarrow> string \<Rightarrow> string \<Rightarrow> pyfloat \<Rightarrow> pyfloat \<Rightarrow> exn + dict" where
  "place_limit_order ex self symbol side quantity price =
     (case futures_create_order ex (client self)
             (limit_order_kwargs symbol side quantity price) of
        Inr order \<Rightarrow> Inr order
      | Inl (BinanceAPIException msg r) \<Rightarrow> error_with_details msg r
      | Inl (BinanceOrderException msg r) \<Rightarrow> error_with_details msg r
      | Inl e \<Rightarrow> Inr [(''error'', JStr (str_exn e))])"

definition get_order_status :: "exchange \<Rightarrow> BasicBot \<Rightarrow> string \<Rightarrow> int \<Rightarrow> exn + dict" where
  "get_order_status ex self symbol order_id =
     (case futures_get_order ex (client self)
             [(''symbol'', JStr (upper symbol)), (''orderId'', JInt order_id)] of
        Inr order_status \<Rightarrow> Inr order_status
      | Inl (BinanceAPIException msg r) \<Rightarrow> error_with_details msg r
      | Inl e \<Rightarrow> Inr [(''error'', JStr (str_exn e))])"

text \<open>
  The loop of \<open>get_account_balance\<close> over the balance list: \<open>Inr (Some balance_info)\<close> is
  the \<open>return\<close> inside the loop, \<open>Inr None\<close> the end of the list, \<open>Inl\<close> the \<open>KeyError\<close> of
  \<open>balance_info['asset']\<close> on an entry without that key.
\<close>

fun scan_balances :: "dict list \<Rightarrow> string \<Rightarrow> exn + dict option" where
  "scan_balances [] asset = Inr None"
| "scan_balances (balance_info # balances) asset =
     (case map_of balance_info ''asset'' of
        None \<Rightarrow> Inl (KeyError ''asset'')
      | Some a \<Rightarrow>
          if a = JStr (upper asset) then Inr (Some balance_info)
          else scan_balances balances asset)"

definition get_account_balance :: "exchange \<Rightarrow> BasicBot \<Rightarrow> string \<Rightarrow> exn + dict" where
  "get_account_balance ex self asset =
     (case futures_account_balance ex (client self) of
        Inr balances \<Rightarrow>
          (case scan_balances balances asset of
             Inr (Some balance_info) \<Rightarrow> Inr balance_info
           | Inr None \<Rightarrow> Inr [(''error'', JStr (''Asset '' @ asset @ '' not found.''))]
           | Inl e \<Rightarrow> Inr [(''error'', JStr (str_exn e))])
      | Inl (BinanceAPIException msg r) \<Rightarrow> error_with_details msg r
      | Inl e \<Rightarrow> Inr [(''error'', JStr (str_exn e))])"

section \<open>The forms of the Streamlit page\<close>

text \<open>
  A submit handler either shows messages and calls nothing (\<open>Rejected\<close>, with the texts of
  \<open>st.error\<close> and \<open>st.warning\<close> in the order shown), or calls one method of the bot
  (\<open>Dispatched\<close>, with the call and what the method returned or raised). How the page
  then displays the result, and the log file, are not modelled.
\<close>

datatype order_type = Market | Limit

datatype facade_call =
    PlaceMarketOrder string string pyfloat
  | PlaceLimitOrder string string pyfloat pyfloat
  | GetOrderStatus string int

datatype shell_outcome = Rejected "string list" | Dispatched facade_call "exn + dict"

definition order_form_submit ::
  "exchange \<Rightarrow> BasicBot \<Rightarrow> order_type \<Rightarrow> string \<Rightarrow> string \<Rightarrow> string \<Rightarrow> string
     \<Rightarrow> shell_outcome" where
  "order_form_submit ex bot_instance order_type symbol_input side quantity_str price_input =
     (let symbol = upper symbol_input;
          price_str = (if order_type = Limit then price_input else ''0'')
      in case float_py quantity_str of
           None \<Rightarrow> Rejected [''Invalid input for quantity or price. Please enter numbers.'']
         | Some quantity \<Rightarrow>
             if le_zero quantity then Rejected [''Quantity must be a positive number.'']
             else
               (case order_type of
                  Market \<Rightarrow>
                    Dispatched (PlaceMarketOrder symbol side quantity)
                      (place_market_order ex bot_instance symbol side quantity)
                | Limit \<Rightarrow>
                    (case float_py price_str of
                       None \<Rightarrow>
                         Rejected [''Invalid input for quantity or price. Please enter numbers.'']
                     | Some price \<Rightarrow>
                         if le_zero price
                         then Rejected [''Price must be a positive number for limit orders.'',
                                        ''No response from order placement. Check logs.'']
                         else
                           Dispatched (PlaceLimitOrder symbol side quantity price)
                             (place_limit_order ex bot_instance symbol side quantity price))))"

definition status_form_submit ::
  "exchange \<Rightarrow> BasicBot \<Rightarrow> string \<Rightarrow> string \<Rightarrow> shell_outcome" where
  "status_form_submit ex bot_instance symbol_input order_id_str =
     (let status_symbol = upper symbol_input
      in if status_symbol = [] \<or> order_id_str = []
         then Rejected [''Please enter Symbol and Order ID.'']
         else
           (case int_py order_id_str of
              None \<Rightarrow> Rejected [''Invalid Order ID. Please enter a number.'']
            | Some order_id \<Rightarrow>
                Dispatched (GetOrderStatus status_symbol order_id)
                  (get_order_status ex bot_instance status_symbol order_id)))"

definition invokes_facade :: "shell_outcome \<Rightarrow> bool" where
  "invokes_facade out = (case out of Rejected msgs \<Rightarrow> False | Dispatched c r \<Rightarrow> True)"

section \<open>Exchanges for the examples\<close>

text \<open>
  \<open>raising e\<close> is a client whose constructor and every call raise \<open>e\<close>;
  \<open>returning p bs\<close> one whose calls succeed, with payload \<open>p\<close> and balance list \<open>bs\<close>; \<open>echo\<close> one whose order and lookup calls
  return the keyword arguments they were given, so that the request can be read off the
  result.
\<close>

definition raising :: "exn \<Rightarrow> exchange" where
  "raising e =
     \<lparr>Client_init = (\<lambda>k s. Some e),
      futures_time = (\<lambda>c. Inl e),
      futures_create_order = (\<lambda>c kw. Inl e),
      futures_get_order = (\<lambda>c kw. Inl e),
      futures_account_balance = (\<lambda>c. Inl e)\<rparr>"

definition returning :: "dict \<Rightarrow> dict list \<Rightarrow> exchange" where
  "returning p bs =
     \<lparr>Client_init = (\<lambda>k s. None),
      futures_time = (\<lambda>c. Inr p),
      futures_create_order = (\<lambda>c kw. Inr p),
      futures_get_order = (\<lambda>c kw. Inr p),
      futures_account_balance = (\<lambda>c. Inr bs)\<rparr>"

definition echo :: exchange where
  "echo =
     \<lparr>Client_init = (\<lambda>k s. None),
      futures_time = (\<lambda>c. Inr []),
      futures_create_order = (\<lambda>c kw. Inr kw),
      futures_get_order = (\<lambda>c kw. Inr kw),
      futures_account_balance = (\<lambda>c. Inr [])\<rparr>"

definition test_bot :: BasicBot where
  "test_bot =
     \<lparr>client = \<lparr>API_KEY = ''key'', API_SECRET = ''secret'',
                 API_URL = Some (TESTNET_BASE_URL @ ''/fapi'')\<rparr>\<rparr>"

section \<open>Predicates of the properties\<close>

text \<open>Two texts that differ at most in the casing of their letters.\<close>

definition differ_in_case_only :: "string \<Rightarrow> string \<Rightarrow> bool" where
  "differ_in_case_only s t =
     list_all2 (\<lambda>a b. a = b \<or> upper_char a = b \<or> a = upper_char b) s t"




text \<open>An entry of the balance list whose asset code is there and is not \<open>code\<close>.\<close>

definition other_asset :: "string \<Rightarrow> dict \<Rightarrow> bool" where
  "other_asset code balance_info =
     (case map_of balance_info ''asset'' of None \<Rightarrow> False | Some a \<Rightarrow> a \<noteq> JStr code)"

text \<open>
  An entry of the balance list as the exchange writes it, with its asset code a text in
  upper case; and an entry whose asset code is the one asked for, casing apart.
\<close>

definition upper_case_entry :: "dict \<Rightarrow> bool" where
  "upper_case_entry balance_info =
     (case map_of balance_info ''asset'' of Some (JStr a) \<Rightarrow> upper a = a | _ \<Rightarrow> False)"

definition asset_matches :: "string \<Rightarrow> dict \<Rightarrow> bool" where
  "asset_matches asset balance_info =
     (case map_of balance_info ''asset'' of
        Some (JStr a) \<Rightarrow> differ_in_case_only asset a
      | _ \<Rightarrow> False)"

text \<open>The two shapes of failure record that the methods build.\<close>

abbreviation failure :: "string \<Rightarrow> dict" where
  "failure msg \<equiv> [(''error'', JStr msg)]"

abbreviation failure_with_details :: "string \<Rightarrow> json \<Rightarrow> dict" where
  "failure_with_details msg d \<equiv> [(''error'', JStr msg), (''details'', d)]"

section \<open>Properties\<close>

subsection \<open>Upper-casing\<close>

lemma upper_char_idem: "upper_char (upper_char c) = upper_char c"
proof -
  let ?n = "of_char c :: int"
  show ?thesis
  proof (cases "97 \<le> ?n \<and> ?n \<le> 122")
    case True
    then have m: "(?n - 32) mod 256 = ?n - 32" by simp
    from True have u: "upper_char c = char_of (?n - 32)"
      by (simp add: upper_char_def Let_def)
    have "of_char (char_of (?n - 32) :: char) = ((?n - 32) mod 256 :: int)"
      by (rule of_char_of)
    with m have "of_char (char_of (?n - 32) :: char) = (?n - 32 :: int)" by simp
    with True have "upper_char (char_of (?n - 32)) = char_of (?n - 32)"
      by (simp add: upper_char_def Let_def)
    with u show ?thesis by simp
  next
    case False
    then have "upper_char c = c" by (auto simp add: upper_char_def Let_def)
    then show ?thesis by simp
  qed
qed

lemma upper_idem: "upper (upper s) = upper s"
  by (simp add: upper_def upper_char_idem)

lemma differ_in_case_only_upper: "differ_in_case_only s t \<Longrightarrow> upper s = upper t"
  unfolding differ_in_case_only_def upper_def
proof (induction s t rule: list_all2_induct)
  case Nil
  show ?case by simp
next
  case (Cons a s b t)
  from Cons.hyps(1) have "upper_char a = upper_char b"
    by (auto simp add: upper_char_idem)
  with Cons.IH show ?case by simp
qed

lemma upper_btcusdt: "upper ''btcusdt'' = ''BTCUSDT''"
  by code_simp

lemma upper_buy: "upper ''buy'' = ''BUY''"
  by code_simp

subsection \<open>Construction\<close>

text \<open>
  C5 (amended). Constructing the bot with a key or a secret that is missing (\<open>None\<close>) or
  empty fails with the \<open>ValueError\<close> before the library's \<open>Client\<close> is constructed, on
  every exchange, and yields no bot. With both non-empty, the bot is returned, its
  client holding the two credentials, when the constructor of \<open>Client\<close> returns; when
  that constructor raises, so does the construction of the bot, and no bot is returned.
\<close>

theorem C5_construct:
  "((api_key = None \<or> api_key = Some [] \<or> api_secret = None \<or> api_secret = Some []) \<longrightarrow>
      BasicBot_init ex api_key api_secret testnet =
        Inl (ValueError ''API Key and API Secret are required.''))
   \<and> (api_key = Some k \<and> k \<noteq> [] \<and> api_secret = Some s \<and> s \<noteq> []
        \<and> Client_init ex k s = None \<longrightarrow>
        (\<exists>bot_instance. BasicBot_init ex api_key api_secret testnet = Inr bot_instance
               \<and> API_KEY (client bot_instance) = k \<and> API_SECRET (client bot_instance) = s
               \<and> API_URL (client bot_instance)
                   = (if testnet then Some (TESTNET_BASE_URL @ ''/fapi'') else None)))
   \<and> (api_key = Some k \<and> k \<noteq> [] \<and> api_secret = Some s \<and> s \<noteq> []
        \<and> Client_init ex k s = Some e \<longrightarrow>
        BasicBot_init ex api_key api_secret testnet = Inl e)"
  by (auto simp add: BasicBot_init_def not_py_def)

theorem C5_construct_witness:
  "BasicBot_init echo None (Some ''secret'') True =
     Inl (ValueError ''API Key and API Secret are required.'')
   \<and> BasicBot_init echo (Some ''key'') (Some []) True =
     Inl (ValueError ''API Key and API Secret are required.'')
   \<and> (\<exists>bot_instance. BasicBot_init echo (Some ''key'') (Some ''secret'') True = Inr bot_instance
            \<and> API_KEY (client bot_instance) = ''key''
            \<and> API_SECRET (client bot_instance) = ''secret'')
   \<and> BasicBot_init (raising (OtherException ''connection refused'')) (Some ''key'')
        (Some ''secret'') True
     = Inl (OtherException ''connection refused'')"
  using C5_construct [of None "Some ''secret''" echo True]
        C5_construct [of "Some ''key''" "Some []" echo True]
        C5_construct [of "Some ''key''" "Some ''secret''" echo True "''key''" "''secret''"]
        C5_construct [of "Some ''key''" "Some ''secret''"
                         "raising (OtherException ''connection refused'')" True
                         "''key''" "''secret''" "OtherException ''connection refused''"]
  by (auto simp add: echo_def raising_def)

theorem C5_constructor_raises_counterexample:
  "BasicBot_init (raising (OtherException ''connection refused'')) (Some ''key'')
       (Some ''secret'') True
     = Inl (OtherException ''connection refused'')"
  by (simp add: BasicBot_init_def not_py_def raising_def)

subsection \<open>Casing of symbol and side\<close>

lemma place_market_order_call:
  "place_market_order ex self symbol side quantity =
     (case futures_create_order ex (client self)
             [(''symbol'', JStr (upper symbol)), (''side'', JStr (upper side)),
              (''type'', JStr ORDER_TYPE_MARKET), (''quantity'', JFloat quantity)] of
        Inr order \<Rightarrow> Inr order
      | Inl (BinanceAPIException msg r) \<Rightarrow> error_with_details msg r
      | Inl (BinanceOrderException msg r) \<Rightarrow> error_with_details msg r
      | Inl e \<Rightarrow> Inr (failure (str_exn e)))"
  by (simp add: place_market_order_def market_order_kwargs_def)

lemma place_limit_order_call:
  "place_limit_order ex self symbol side quantity price =
     (case futures_create_order ex (client self)
             [(''symbol'', JStr (upper symbol)), (''side'', JStr (upper side)),
              (''type'', JStr ORDER_TYPE_LIMIT), (''timeInForce'', JStr TIME_IN_FORCE_GTC),
              (''quantity'', JFloat quantity), (''price'', JStr (float_repr price))] of
        Inr order \<Rightarrow> Inr order
      | Inl (BinanceAPIException msg r) \<Rightarrow> error_with_details msg r
      | Inl (BinanceOrderException msg r) \<Rightarrow> error_with_details msg r
      | Inl e \<Rightarrow> Inr (failure (str_exn e)))"
  by (simp add: place_limit_order_def limit_order_kwargs_def)

text \<open>
  C6. \<open>place_market_order\<close> and \<open>place_limit_order\<close> call \<open>futures_create_order\<close> with
  the symbol and the side upper-cased: on the exchange that returns the keyword arguments
  it is given, the result is the request with both fields in upper case; on every
  exchange the method returns the payload of that call, and its result depends on the
  exchange only through that call. So two calls whose symbols and sides differ only in
  casing send the same request and return the same result.
\<close>

theorem C6_case_insensitive:
  assumes "differ_in_case_only symbol symbol'" and "differ_in_case_only side side'"
  shows "place_market_order echo self symbol side quantity
           = Inr [(''symbol'', JStr (upper symbol)), (''side'', JStr (upper side)),
                  (''type'', JStr ORDER_TYPE_MARKET), (''quantity'', JFloat quantity)]
       \<and> place_market_order echo self symbol' side' quantity
           = Inr [(''symbol'', JStr (upper symbol)), (''side'', JStr (upper side)),
                  (''type'', JStr ORDER_TYPE_MARKET), (''quantity'', JFloat quantity)]
       \<and> (futures_create_order ex (client self)
             [(''symbol'', JStr (upper symbol)), (''side'', JStr (upper side)),
              (''type'', JStr ORDER_TYPE_MARKET), (''quantity'', JFloat quantity)] = Inr p \<longrightarrow>
           place_market_order ex self symbol side quantity = Inr p
           \<and> place_market_order ex self symbol' side' quantity = Inr p)
       \<and> (futures_create_order ex (client self)
             [(''symbol'', JStr (upper symbol)), (''side'', JStr (upper side)),
              (''type'', JStr ORDER_TYPE_MARKET), (''quantity'', JFloat quantity)]
           = futures_create_order ex' (client self')
             [(''symbol'', JStr (upper symbol)), (''side'', JStr (upper side)),
              (''type'', JStr ORDER_TYPE_MARKET), (''quantity'', JFloat quantity)] \<longrightarrow>
           place_market_order ex self symbol side quantity
             = place_market_order ex' self' symbol' side' quantity)
       \<and> place_market_order ex self symbol side quantity
           = place_market_order ex self symbol' side' quantity
       \<and> market_order_kwargs symbol side quantity = market_order_kwargs symbol' side' quantity
       \<and> place_limit_order echo self symbol side quantity price
           = Inr [(''symbol'', JStr (upper symbol)), (''side'', JStr (upper side)),
                  (''type'', JStr ORDER_TYPE_LIMIT), (''timeInForce'', JStr TIME_IN_FORCE_GTC),
                  (''quantity'', JFloat quantity), (''price'', JStr (float_repr price))]
       \<and> place_limit_order echo self symbol' side' quantity price
           = Inr [(''symbol'', JStr (upper symbol)), (''side'', JStr (upper side)),
                  (''type'', JStr ORDER_TYPE_LIMIT), (''timeInForce'', JStr TIME_IN_FORCE_GTC),
                  (''quantity'', JFloat quantity), (''price'', JStr (float_repr price))]
       \<and> (futures_create_order ex (client self)
             [(''symbol'', JStr (upper symbol)), (''side'', JStr (upper side)),
              (''type'', JStr ORDER_TYPE_LIMIT), (''timeInForce'', JStr TIME_IN_FORCE_GTC),
              (''quantity'', JFloat quantity), (''price'', JStr (float_repr price))] = Inr p \<longrightarrow>
           place_limit_order ex self symbol side quantity price = Inr p
           \<and> place_limit_order ex self symbol' side' quantity price = Inr p)
       \<and> (futures_create_order ex (client self)
             [(''symbol'', JStr (upper symbol)), (''side'', JStr (upper side)),
              (''type'', JStr ORDER_TYPE_LIMIT), (''timeInForce'', JStr TIME_IN_FORCE_GTC),
              (''quantity'', JFloat quantity), (''price'', JStr (float_repr price))]
           = futures_create_order ex' (client self')
             [(''symbol'', JStr (upper symbol)), (''side'', JStr (upper side)),
              (''type'', JStr ORDER_TYPE_LIMIT), (''timeInForce'', JStr TIME_IN_FORCE_GTC),
              (''quantity'', JFloat quantity), (''price'', JStr (float_repr price))] \<longrightarrow>
           place_limit_order ex self symbol side quantity price
             = place_limit_order ex' self' symbol' side' quantity price)
       \<and> place_limit_order ex self symbol side quantity price
           = place_limit_order ex self symbol' side' quantity price
       \<and> limit_order_kwargs symbol side quantity price
           = limit_order_kwargs symbol' side' quantity price"
proof -
  from assms have u: "upper symbol' = upper symbol" "upper side' = upper side"
    by (simp_all add: differ_in_case_only_upper)
  have m1: "place_market_order echo self symbol side quantity
           = Inr [(''symbol'', JStr (upper symbol)), (''side'', JStr (upper side)),
                  (''type'', JStr ORDER_TYPE_MARKET), (''quantity'', JFloat quantity)]"
    by (simp add: place_market_order_call echo_def)
  have m2: "place_market_order echo self symbol' side' quantity
           = Inr [(''symbol'', JStr (upper symbol)), (''side'', JStr (upper side)),
                  (''type'', JStr ORDER_TYPE_MARKET), (''quantity'', JFloat quantity)]"
    by (simp add: place_market_order_call echo_def u)
  have m3: "futures_create_order ex (client self)
             [(''symbol'', JStr (upper symbol)), (''side'', JStr (upper side)),
              (''type'', JStr ORDER_TYPE_MARKET), (''quantity'', JFloat quantity)] = Inr p \<longrightarrow>
           place_market_order ex self symbol side quantity = Inr p
           \<and> place_market_order ex self symbol' side' quantity = Inr p"
    by (simp add: place_market_order_call u)
  have m4: "futures_create_order ex (client self)
             [(''symbol'', JStr (upper symbol)), (''side'', JStr (upper side)),
              (''type'', JStr ORDER_TYPE_MARKET), (''quantity'', JFloat quantity)]
           = futures_create_order ex' (client self')
             [(''symbol'', JStr (upper symbol)), (''side'', JStr (upper side)),
              (''type'', JStr ORDER_TYPE_MARKET), (''quantity'', JFloat quantity)] \<longrightarrow>
           place_market_order ex self symbol side quantity
             = place_market_order ex' self' symbol' side' quantity"
    by (simp add: place_market_order_call u)
  have m5: "place_market_order ex self symbol side quantity
           = place_market_order ex self symbol' side' quantity"
    by (simp add: place_market_order_call u)
  have m6: "market_order_kwargs symbol side quantity = market_order_kwargs symbol' side' quantity"
    by (simp add: market_order_kwargs_def u)
  have l1: "place_limit_order echo self symbol side quantity price
           = Inr [(''symbol'', JStr (upper symbol)), (''side'', JStr (upper side)),
                  (''type'', JStr ORDER_TYPE_LIMIT), (''timeInForce'', JStr TIME_IN_FORCE_GTC),
                  (''quantity'', JFloat quantity), (''price'', JStr (float_repr price))]"
    by (simp add: place_limit_order_call echo_def)
  have l2: "place_limit_order echo self symbol' side' quantity price
           = Inr [(''symbol'', JStr (upper symbol)), (''side'', JStr (upper side)),
                  (''type'', JStr ORDER_TYPE_LIMIT), (''timeInForce'', JStr TIME_IN_FORCE_GTC),
                  (''quantity'', JFloat quantity), (''price'', JStr (float_repr price))]"
    by (simp add: place_limit_order_call echo_def u)
  have l3: "futures_create_order ex (client self)
             [(''symbol'', JStr (upper symbol)), (''side'', JStr (upper side)),
              (''type'', JStr ORDER_TYPE_LIMIT), (''timeInForce'', JStr TIME_IN_FORCE_GTC),
              (''quantity'', JFloat quantity), (''price'', JStr (float_repr price))] = Inr p \<longrightarrow>
           place_limit_order ex self symbol side quantity price = Inr p
           \<and> place_limit_order ex self symbol' side' quantity price = Inr p"
    by (simp add: place_limit_order_call u)
  have l4: "futures_create_order ex (client self)
             [(''symbol'', JStr (upper symbol)), (''side'', JStr (upper side)),
              (''type'', JStr ORDER_TYPE_LIMIT), (''timeInForce'', JStr TIME_IN_FORCE_GTC),
              (''quantity'', JFloat quantity), (''price'', JStr (float_repr price))]
           = futures_create_order ex' (client self')
             [(''symbol'', JStr (upper symbol)), (''side'', JStr (upper side)),
              (''type'', JStr ORDER_TYPE_LIMIT), (''timeInForce'', JStr TIME_IN_FORCE_GTC),
              (''quantity'', JFloat quantity), (''price'', JStr (float_repr price))] \<longrightarrow>
           place_limit_order ex self symbol side quantity price
             = place_limit_order ex' self' symbol' side' quantity price"
    by (simp add: place_limit_order_call u)
  have l5: "place_limit_order ex self symbol side quantity price
           = place_limit_order ex self symbol' side' quantity price"
    by (simp add: place_limit_order_call u)
  have l6: "limit_order_kwargs symbol side quantity price
           = limit_order_kwargs symbol' side' quantity price"
    by (simp add: limit_order_kwargs_def u)
  from m1 m2 m3 m4 m5 m6 l1 l2 l3 l4 l5 l6 show ?thesis
    by (intro conjI)
qed

theorem C6_case_insensitive_witness:
  "place_market_order echo test_bot ''btcusdt'' ''buy'' (Finite False 4611686018427388 (- 62))
     = Inr [(''symbol'', JStr ''BTCUSDT''), (''side'', JStr ''BUY''), (''type'', JStr ''MARKET''),
            (''quantity'', JFloat (Finite False 4611686018427388 (- 62)))]
   \<and> place_market_order echo test_bot ''BTCUSDT'' ''BUY'' (Finite False 4611686018427388 (- 62))
     = Inr [(''symbol'', JStr ''BTCUSDT''), (''side'', JStr ''BUY''), (''type'', JStr ''MARKET''),
            (''quantity'', JFloat (Finite False 4611686018427388 (- 62)))]
   \<and> place_limit_order echo test_bot ''btcusdt'' ''buy'' (Finite False 4611686018427388 (- 62))
       (Finite False 5497695577833472 (- 38))
     = place_limit_order echo test_bot ''BTCUSDT'' ''BUY'' (Finite False 4611686018427388 (- 62))
       (Finite False 5497695577833472 (- 38))"
proof -
  have a: "differ_in_case_only ''btcusdt'' ''BTCUSDT''"
    by code_simp
  have b: "differ_in_case_only ''buy'' ''BUY''"
    by code_simp
  note h = C6_case_insensitive [OF a b, of test_bot "Finite False 4611686018427388 (- 62)"
             echo _ _ _ "Finite False 5497695577833472 (- 38)"]
  from h have "place_market_order echo test_bot ''btcusdt'' ''buy''
                 (Finite False 4611686018427388 (- 62))
           = Inr [(''symbol'', JStr (upper ''btcusdt'')), (''side'', JStr (upper ''buy'')),
                  (''type'', JStr ORDER_TYPE_MARKET),
                  (''quantity'', JFloat (Finite False 4611686018427388 (- 62)))]"
    by blast
  moreover from h have "place_market_order echo test_bot ''BTCUSDT'' ''BUY''
                 (Finite False 4611686018427388 (- 62))
           = Inr [(''symbol'', JStr (upper ''btcusdt'')), (''side'', JStr (upper ''buy'')),
                  (''type'', JStr ORDER_TYPE_MARKET),
                  (''quantity'', JFloat (Finite False 4611686018427388 (- 62)))]"
    by blast
  moreover from h have "place_limit_order echo test_bot ''btcusdt'' ''buy''
       (Finite False 4611686018427388 (- 62)) (Finite False 5497695577833472 (- 38))
     = place_limit_order echo test_bot ''BTCUSDT'' ''BUY'' (Finite False 4611686018427388 (- 62))
       (Finite False 5497695577833472 (- 38))"
    by blast
  ultimately show ?thesis
    by (simp add: upper_btcusdt upper_buy ORDER_TYPE_MARKET_def)
qed

subsection \<open>Failure records\<close>



lemma error_with_details_body:
  "error_with_details msg (HttpResponse True (Inr body)) = Inr (failure_with_details msg body)"
  by (simp add: error_with_details_def)

lemma get_server_time_failure:
  "futures_time ex (client self) = Inl e \<Longrightarrow> get_server_time ex self = Inr (failure (str_exn e))"
  by (cases e) (simp_all add: get_server_time_def)









text \<open>
  C1. An exception can leave a method: the \<open>details\<close> expression of a handler is
  evaluated inside the \<open>except\<close> clause, after the last \<open>try\<close>. Here the client raises an
  order exception that has no \<open>response\<close> attribute, and an API exception whose response is
  true and whose body is not JSON; the methods raise instead of returning a record.
\<close>

theorem C1_exception_escapes:
  "place_market_order (raising (BinanceOrderException ''order rejected'' NoAttribute)) test_bot
       ''BTCUSDT'' ''BUY'' (Finite False 4611686018427388 (- 62))
     = Inl (AttributeError ''response'')
   \<and> place_limit_order (raising (BinanceOrderException ''order rejected'' NoAttribute)) test_bot
       ''BTCUSDT'' ''BUY'' (Finite False 4611686018427388 (- 62))
       (Finite False 5497695577833472 (- 38))
     = Inl (AttributeError ''response'')
   \<and> get_order_status
       (raising (BinanceAPIException ''bad gateway'' (HttpResponse True (Inl ''Expecting value''))))
       test_bot ''BTCUSDT'' 1
     = Inl (OtherException ''Expecting value'')
   \<and> get_account_balance
       (raising (BinanceAPIException ''bad gateway'' (HttpResponse True (Inl ''Expecting value''))))
       test_bot ''USDT''
     = Inl (OtherException ''Expecting value'')"
  by (simp add: place_market_order_def place_limit_order_def get_order_status_def
      get_account_balance_def raising_def error_with_details_def)

text \<open>Where the \<open>details\<close> expression is not reached or returns, a record is returned;
  \<open>get_server_time\<close> has no such expression and always returns one.\<close>

lemma get_server_time_returns: "\<exists>d. get_server_time ex self = Inr d"
proof (cases "futures_time ex (client self)")
  case (Inl e)
  then show ?thesis by (simp add: get_server_time_failure)
next
  case (Inr p)
  then show ?thesis by (cases "map_of p ''serverTime''") (simp_all add: get_server_time_def)
qed





text \<open>
  C3. The body of an exchange error is lost. The handlers choose between the parsed body
  and the placeholder by the truth value of \<open>e.response\<close>, and the response of an HTTP
  error status is false although it carries the body: for such an API exception the four
  methods with a \<open>details\<close> expression return the placeholder in place of the body, and
  \<open>get_server_time\<close>, which has none, returns the message alone.
\<close>

theorem C3_body_dropped:
  "place_market_order
       (raising (BinanceAPIException ''APIError(code=-1121): Invalid symbol.''
                   (HttpResponse False
                      (Inr (JDict [(''code'', JInt (- 1121)), (''msg'', JStr ''Invalid symbol.'')])))))
       test_bot ''BTCUSDT'' ''BUY'' (Finite False 4611686018427388 (- 62))
     = Inr [(''error'', JStr ''APIError(code=-1121): Invalid symbol.''),
            (''details'', JStr ''No response details'')]
   \<and> place_limit_order
       (raising (BinanceAPIException ''APIError(code=-1121): Invalid symbol.''
                   (HttpResponse False
                      (Inr (JDict [(''code'', JInt (- 1121)), (''msg'', JStr ''Invalid symbol.'')])))))
       test_bot ''BTCUSDT'' ''BUY'' (Finite False 4611686018427388 (- 62))
       (Finite False 5497695577833472 (- 38))
     = Inr [(''error'', JStr ''APIError(code=-1121): Invalid symbol.''),
            (''details'', JStr ''No response details'')]
   \<and> get_order_status
       (raising (BinanceAPIException ''APIError(code=-2013): Order does not exist.''
                   (HttpResponse False
                      (Inr (JDict [(''code'', JInt (- 2013)),
                                   (''msg'', JStr ''Order does not exist.'')])))))
       test_bot ''BTCUSDT'' 7
     = Inr [(''error'', JStr ''APIError(code=-2013): Order does not exist.''),
            (''details'', JStr ''No response details'')]
   \<and> get_account_balance
       (raising (BinanceAPIException ''APIError(code=-2015): Invalid API-key.''
                   (HttpResponse False
                      (Inr (JDict [(''code'', JInt (- 2015)), (''msg'', JStr ''Invalid API-key.'')])))))
       test_bot ''USDT''
     = Inr [(''error'', JStr ''APIError(code=-2015): Invalid API-key.''),
            (''details'', JStr ''No response details'')]
   \<and> get_server_time
       (raising (BinanceAPIException ''APIError(code=-1003): Too many requests.''
                   (HttpResponse False
                      (Inr (JDict [(''code'', JInt (- 1003)),
                                   (''msg'', JStr ''Too many requests.'')])))))
       test_bot
     = Inr [(''error'', JStr ''APIError(code=-1003): Too many requests.'')]"
  by (simp add: place_market_order_def place_limit_order_def get_order_status_def
      get_account_balance_def get_server_time_def raising_def error_with_details_def)

subsection \<open>The balance scan\<close>

lemma scan_balances_none:
  "\<forall>x \<in> set balances. other_asset (upper asset) x \<Longrightarrow> scan_balances balances asset = Inr None"
  by (induction balances) (auto simp add: other_asset_def split: option.splits)

lemma scan_balances_first:
  assumes "\<forall>x \<in> set pre. other_asset (upper asset) x"
    and "map_of b ''asset'' = Some (JStr (upper asset))"
  shows "scan_balances (pre @ b # post) asset = Inr (Some b)"
  using assms by (induction pre) (auto simp add: other_asset_def split: option.splits)

lemma scan_balances_member:
  "scan_balances balances asset = Inr (Some b) \<Longrightarrow>
     b \<in> set balances \<and> map_of b ''asset'' = Some (JStr (upper asset))"
  by (induction balances) (auto split: option.splits if_splits)

lemma get_account_balance_not_found:
  assumes "futures_account_balance ex (client self) = Inr balances"
    and "\<forall>x \<in> set balances. other_asset (upper asset) x"
  shows "get_account_balance ex self asset = Inr (failure (''Asset '' @ asset @ '' not found.''))"
  using assms by (simp add: get_account_balance_def scan_balances_none)

lemma get_account_balance_found:
  assumes "futures_account_balance ex (client self) = Inr (pre @ b # post)"
    and "\<forall>x \<in> set pre. other_asset (upper asset) x"
    and "map_of b ''asset'' = Some (JStr (upper asset))"
  shows "get_account_balance ex self asset = Inr b"
  using assms by (simp add: get_account_balance_def scan_balances_first)

lemma get_account_balance_shape:
  assumes "futures_account_balance ex (client self) = Inr balances"
  shows "(\<exists>b \<in> set balances. get_account_balance ex self asset = Inr b)
         \<or> (\<exists>msg. get_account_balance ex self asset = Inr (failure msg))"
proof (cases "scan_balances balances asset")
  case (Inl e)
  with assms show ?thesis by (simp add: get_account_balance_def)
next
  case (Inr found)
  show ?thesis
  proof (cases found)
    case None
    with Inr assms show ?thesis by (simp add: get_account_balance_def)
  next
    case (Some b)
    with Inr have "b \<in> set balances" by (simp add: scan_balances_member)
    moreover from Some Inr assms have "get_account_balance ex self asset = Inr b"
      by (simp add: get_account_balance_def)
    ultimately show ?thesis by blast
  qed
qed

lemma upper_USDT: "upper ''USDT'' = ''USDT''"
  by code_simp

lemma upper_usdt: "upper ''usdt'' = ''USDT''"
  by code_simp

lemma upper_ZZZ: "upper ''ZZZ'' = ''ZZZ''"
  by code_simp

lemma upper_zzz: "upper ''zzz'' = ''ZZZ''"
  by code_simp

text \<open>
  C7 (amended). When the client call succeeds, the two order methods and
  \<open>get_order_status\<close> return exactly the payload; \<open>get_server_time\<close> returns exactly the
  payload when it has the key \<open>serverTime\<close>; \<open>get_account_balance\<close> does not return its
  payload, the balance list, but one entry of it unchanged, or a failure record.
\<close>

theorem C7_success_payload:
  "(futures_create_order ex (client self) (market_order_kwargs symbol side quantity) = Inr p \<longrightarrow>
      place_market_order ex self symbol side quantity = Inr p)
   \<and> (futures_create_order ex (client self) (limit_order_kwargs symbol side quantity price)
        = Inr p \<longrightarrow>
      place_limit_order ex self symbol side quantity price = Inr p)
   \<and> (futures_get_order ex (client self)
         [(''symbol'', JStr (upper symbol)), (''orderId'', JInt order_id)] = Inr p \<longrightarrow>
      get_order_status ex self symbol order_id = Inr p)
   \<and> (futures_time ex (client self) = Inr p \<and> has_key p ''serverTime'' \<longrightarrow>
      get_server_time ex self = Inr p)
   \<and> (futures_account_balance ex (client self) = Inr balances \<longrightarrow>
        (\<exists>b \<in> set balances. get_account_balance ex self asset = Inr b)
        \<or> (\<exists>msg. get_account_balance ex self asset = Inr (failure msg)))"
proof (intro conjI impI)
  assume "futures_create_order ex (client self) (market_order_kwargs symbol side quantity) = Inr p"
  then show "place_market_order ex self symbol side quantity = Inr p"
    by (simp add: place_market_order_def)
next
  assume "futures_create_order ex (client self) (limit_order_kwargs symbol side quantity price)
            = Inr p"
  then show "place_limit_order ex self symbol side quantity price = Inr p"
    by (simp add: place_limit_order_def)
next
  assume "futures_get_order ex (client self)
            [(''symbol'', JStr (upper symbol)), (''orderId'', JInt order_id)] = Inr p"
  then show "get_order_status ex self symbol order_id = Inr p"
    by (simp add: get_order_status_def)
next
  assume "futures_time ex (client self) = Inr p \<and> has_key p ''serverTime''"
  then show "get_server_time ex self = Inr p"
    by (auto simp add: get_server_time_def has_key_def)
next
  assume "futures_account_balance ex (client self) = Inr balances"
  then show "(\<exists>b \<in> set balances. get_account_balance ex self asset = Inr b)
             \<or> (\<exists>msg. get_account_balance ex self asset = Inr (failure msg))"
    by (rule get_account_balance_shape)
qed

theorem C7_success_payload_witness:
  "place_market_order (returning [(''orderId'', JInt 42), (''status'', JStr ''NEW'')] []) test_bot
       ''BTCUSDT'' ''BUY'' (Finite False 4611686018427388 (- 62))
     = Inr [(''orderId'', JInt 42), (''status'', JStr ''NEW'')]
   \<and> get_order_status (returning [(''orderId'', JInt 42), (''status'', JStr ''NEW'')] []) test_bot
       ''BTCUSDT'' 42
     = Inr [(''orderId'', JInt 42), (''status'', JStr ''NEW'')]
   \<and> get_server_time (returning [(''serverTime'', JInt 1700000000000)] []) test_bot
     = Inr [(''serverTime'', JInt 1700000000000)]"
  using
    C7_success_payload
      [of "returning [(''orderId'', JInt 42), (''status'', JStr ''NEW'')] []" test_bot
          "''BTCUSDT''" "''BUY''" "Finite False 4611686018427388 (- 62)"
          "[(''orderId'', JInt 42), (''status'', JStr ''NEW'')]" _ 42]
    C7_success_payload
      [of "returning [(''serverTime'', JInt 1700000000000)] []" test_bot _ _ _
          "[(''serverTime'', JInt 1700000000000)]"]
  by (simp add: returning_def has_key_def)

theorem C7_balance_counterexample:
  "futures_account_balance
       (returning [] [[(''asset'', JStr ''USDT''), (''balance'', JStr ''100.0'')],
                      [(''asset'', JStr ''BNB''), (''balance'', JStr ''2.0'')]])
       (client test_bot)
     = Inr [[(''asset'', JStr ''USDT''), (''balance'', JStr ''100.0'')],
            [(''asset'', JStr ''BNB''), (''balance'', JStr ''2.0'')]]
   \<and> get_account_balance
       (returning [] [[(''asset'', JStr ''USDT''), (''balance'', JStr ''100.0'')],
                      [(''asset'', JStr ''BNB''), (''balance'', JStr ''2.0'')]])
       test_bot ''USDT''
     = Inr [(''asset'', JStr ''USDT''), (''balance'', JStr ''100.0'')]
   \<and> futures_account_balance (returning [] []) (client test_bot) = Inr []
   \<and> get_account_balance (returning [] []) test_bot ''USDT''
     = Inr [(''error'', JStr ''Asset USDT not found.'')]"
  by (simp add: get_account_balance_def returning_def upper_USDT)

lemma differ_in_case_only_upper_self: "differ_in_case_only s (upper s)"
  unfolding differ_in_case_only_def upper_def
  by (induction s) simp_all

lemma upper_case_entry_asset:
  assumes "upper_case_entry x"
  obtains a where "map_of x ''asset'' = Some (JStr a)" and "upper a = a"
proof (cases "map_of x ''asset''")
  case None
  with assms show ?thesis by (simp add: upper_case_entry_def)
next
  case (Some v)
  with assms that show ?thesis by (cases v) (simp_all add: upper_case_entry_def)
qed

lemma no_match_other_asset:
  assumes "upper_case_entry x" and "\<not> asset_matches asset x"
  shows "other_asset (upper asset) x"
proof -
  from assms(1) obtain a where a: "map_of x ''asset'' = Some (JStr a)" "upper a = a"
    by (rule upper_case_entry_asset)
  from assms(2) a have "\<not> differ_in_case_only asset a"
    by (simp add: asset_matches_def)
  then have "a \<noteq> upper asset"
    using differ_in_case_only_upper_self [of asset] by auto
  with a show ?thesis by (simp add: other_asset_def)
qed

lemma match_upper_asset:
  assumes "upper_case_entry x" and "asset_matches asset x"
  shows "map_of x ''asset'' = Some (JStr (upper asset))"
proof -
  from assms(1) obtain a where a: "map_of x ''asset'' = Some (JStr a)" "upper a = a"
    by (rule upper_case_entry_asset)
  from assms(2) a have "differ_in_case_only asset a"
    by (simp add: asset_matches_def)
  then have "upper asset = upper a" by (rule differ_in_case_only_upper)
  with a show ?thesis by simp
qed

text \<open>
  C8. On a balance list as the exchange returns it, every entry carrying its asset code
  in upper case, \<open>get_account_balance\<close> scans the list in order, matching the asset code
  asked for without regard to casing: the first matching entry is returned unchanged, and
  when no entry matches the result is the failure record with the message
  \<open>Asset <asset> not found.\<close> and no key \<open>details\<close>.
\<close>

theorem C8_balance_scan:
  assumes "futures_account_balance ex (client self) = Inr balances"
    and "\<forall>x \<in> set balances. upper_case_entry x"
  shows "(balances = pre @ b # post
            \<and> (\<forall>x \<in> set pre. \<not> asset_matches asset x)
            \<and> asset_matches asset b \<longrightarrow>
          get_account_balance ex self asset = Inr b)
       \<and> ((\<forall>x \<in> set balances. \<not> asset_matches asset x) \<longrightarrow>
          get_account_balance ex self asset
            = Inr [(''error'', JStr (''Asset '' @ asset @ '' not found.''))]
          \<and> \<not> has_key [(''error'', JStr (''Asset '' @ asset @ '' not found.''))] ''details'')"
proof (intro conjI impI)
  assume h: "balances = pre @ b # post
            \<and> (\<forall>x \<in> set pre. \<not> asset_matches asset x)
            \<and> asset_matches asset b"
  with assms(2) have "\<forall>x \<in> set pre. other_asset (upper asset) x"
    by (simp add: no_match_other_asset)
  moreover from h assms(2) have "map_of b ''asset'' = Some (JStr (upper asset))"
    by (simp add: match_upper_asset)
  moreover from h assms(1) have "futures_account_balance ex (client self) = Inr (pre @ b # post)"
    by simp
  ultimately show "get_account_balance ex self asset = Inr b"
    by (simp add: get_account_balance_found)
next
  assume "\<forall>x \<in> set balances. \<not> asset_matches asset x"
  with assms(2) have "\<forall>x \<in> set balances. other_asset (upper asset) x"
    by (simp add: no_match_other_asset)
  with assms(1) show "get_account_balance ex self asset
                     = Inr [(''error'', JStr (''Asset '' @ asset @ '' not found.''))]"
    by (rule get_account_balance_not_found)
next
  show "\<not> has_key [(''error'', JStr (''Asset '' @ asset @ '' not found.''))] ''details''"
    by (simp add: has_key_def)
qed

theorem C8_balance_scan_witness:
  "get_account_balance
       (returning [] [[(''asset'', JStr ''BNB''), (''balance'', JStr ''2.0'')],
                      [(''asset'', JStr ''USDT''), (''balance'', JStr ''100.0'')]])
       test_bot ''USDT''
     = Inr [(''asset'', JStr ''USDT''), (''balance'', JStr ''100.0'')]
   \<and> get_account_balance
       (returning [] [[(''asset'', JStr ''BNB''), (''balance'', JStr ''2.0'')],
                      [(''asset'', JStr ''USDT''), (''balance'', JStr ''100.0'')]])
       test_bot ''usdt''
     = Inr [(''asset'', JStr ''USDT''), (''balance'', JStr ''100.0'')]
   \<and> get_account_balance
       (returning [] [[(''asset'', JStr ''BNB''), (''balance'', JStr ''2.0'')],
                      [(''asset'', JStr ''USDT''), (''balance'', JStr ''100.0'')]])
       test_bot ''ZZZ''
     = Inr [(''error'', JStr ''Asset ZZZ not found.'')]"
proof -
  let ?bnb = "[(''asset'', JStr ''BNB''), (''balance'', JStr ''2.0'')]"
  let ?usdt = "[(''asset'', JStr ''USDT''), (''balance'', JStr ''100.0'')]"
  let ?bs = "[?bnb, ?usdt]"
  have f: "futures_account_balance (returning [] ?bs) (client test_bot) = Inr ?bs"
    by (simp add: returning_def)
  have u: "\<forall>x \<in> set ?bs. upper_case_entry x"
    by code_simp
  have m1: "\<not> asset_matches ''USDT'' ?bnb" "asset_matches ''USDT'' ?usdt"
    by code_simp+
  have m2: "\<not> asset_matches ''usdt'' ?bnb" "asset_matches ''usdt'' ?usdt"
    by code_simp+
  have m3: "\<forall>x \<in> set ?bs. \<not> asset_matches ''ZZZ'' x"
    by code_simp
  have "get_account_balance (returning [] ?bs) test_bot ''USDT'' = Inr ?usdt"
    using C8_balance_scan [OF f u, of "[?bnb]" ?usdt "[]" "''USDT''"] m1 by simp
  moreover have "get_account_balance (returning [] ?bs) test_bot ''usdt'' = Inr ?usdt"
    using C8_balance_scan [OF f u, of "[?bnb]" ?usdt "[]" "''usdt''"] m2 by simp
  moreover have "get_account_balance (returning [] ?bs) test_bot ''ZZZ''
          = Inr [(''error'', JStr ''Asset ZZZ not found.'')]"
    using C8_balance_scan [OF f u, of _ _ _ "''ZZZ''"] m3 by simp
  ultimately show ?thesis by simp
qed

text \<open>
  C10. When no entry of the balance list has the upper-cased code as its \<open>asset\<close>, the
  message of the failure record spells the asset as the caller wrote it, not upper-cased.
\<close>

theorem C10_not_found_keeps_casing:
  assumes "futures_account_balance ex (client self) = Inr balances"
    and "\<forall>x \<in> set balances. other_asset (upper asset) x"
  shows "get_account_balance ex self asset = Inr [(''error'', JStr (''Asset '' @ asset @ '' not found.''))]"
  using assms by (rule get_account_balance_not_found)

theorem C10_not_found_keeps_casing_witness:
  "get_account_balance
       (returning [] [[(''asset'', JStr ''USDT''), (''balance'', JStr ''100.0'')]])
       test_bot ''zzz''
     = Inr [(''error'', JStr ''Asset zzz not found.'')]"
proof -
  let ?bs = "[[(''asset'', JStr ''USDT''), (''balance'', JStr ''100.0'')]]"
  have f: "futures_account_balance (returning [] ?bs) (client test_bot) = Inr ?bs"
    by (simp add: returning_def)
  have o: "\<forall>x \<in> set ?bs. other_asset (upper ''zzz'') x"
    by (simp add: other_asset_def upper_zzz)
  show ?thesis
    using C10_not_found_keeps_casing [OF f o] by simp
qed

subsection \<open>The order form and the status form\<close>

lemma float_py_0_001: "float_py ''0.001'' = Some (Finite False 4611686018427388 (- 62))"
  by code_simp

lemma float_py_20000_50: "float_py ''20000.50'' = Some (Finite False 5497695577833472 (- 38))"
  by code_simp

lemma float_py_20000_5: "float_py ''20000.5'' = Some (Finite False 5497695577833472 (- 38))"
  by code_simp

lemma float_repr_20000_5: "float_repr (Finite False 5497695577833472 (- 38)) = ''20000.5''"
proof -
  have "repr_digits 5497695577833472 (- 38) = (200005, - 1)" by code_simp
  moreover have "format_repr False 200005 (- 1) = ''20000.5''" by code_simp
  ultimately show ?thesis by (simp add: float_repr_def)
qed

lemma float_py_abc: "float_py ''abc'' = None"
  by code_simp

lemma float_py_minus_1: "float_py ''-1'' = Some (Finite True 4503599627370496 (- 52))"
  by code_simp

lemma float_py_0: "float_py ''0'' = Some (Finite False 0 (- 1074))"
  by code_simp

lemma float_py_nan: "float_py ''nan'' = Some NaN"
  by code_simp

lemma int_py_empty: "int_py [] = None"
  by (simp add: int_py_def strip_def)

lemma int_py_abc: "int_py ''abc'' = None"
  by code_simp

lemma int_py_minus_5: "int_py ''-5'' = Some (- 5)"
  by code_simp

lemma int_py_0: "int_py ''0'' = Some 0"
  by code_simp

lemma upper_BTCUSDT: "upper ''BTCUSDT'' = ''BTCUSDT''"
  by code_simp

lemma upper_BUY: "upper ''BUY'' = ''BUY''"
  by code_simp

lemma upper_empty_iff: "upper s = [] \<longleftrightarrow> s = []"
  by (simp add: upper_def)

lemma order_form_rejects_quantity:
  assumes "float_py quantity_str = None \<or> (\<exists>q. float_py quantity_str = Some q \<and> le_zero q)"
  shows "\<not> invokes_facade
             (order_form_submit ex bot_instance order_type symbol side quantity_str price_str)"
  using assms by (auto simp add: order_form_submit_def invokes_facade_def Let_def)

lemma order_form_rejects_price:
  assumes "float_py price_str = None \<or> (\<exists>p. float_py price_str = Some p \<and> le_zero p)"
  shows "\<not> invokes_facade (order_form_submit ex bot_instance Limit symbol side quantity_str price_str)"
  using assms
  by (auto simp add: order_form_submit_def invokes_facade_def Let_def split: option.splits)

lemma order_form_limit_dispatch:
  assumes "float_py quantity_str = Some quantity" and "\<not> le_zero quantity"
    and "float_py price_str = Some price" and "\<not> le_zero price"
  shows "order_form_submit ex bot_instance Limit symbol side quantity_str price_str
           = Dispatched (PlaceLimitOrder (upper symbol) side quantity price)
               (place_limit_order ex bot_instance (upper symbol) side quantity price)"
  using assms by (simp add: order_form_submit_def Let_def)

lemma order_form_market_dispatch:
  assumes "float_py quantity_str = Some quantity" and "\<not> le_zero quantity"
  shows "order_form_submit ex bot_instance Market symbol side quantity_str price_str
           = Dispatched (PlaceMarketOrder (upper symbol) side quantity)
               (place_market_order ex bot_instance (upper symbol) side quantity)"
  using assms by (simp add: order_form_submit_def Let_def)

lemma status_form_rejects:
  assumes "int_py order_id_str = None"
  shows "\<not> invokes_facade (status_form_submit ex bot_instance symbol order_id_str)"
  using assms by (simp add: status_form_submit_def invokes_facade_def Let_def)

lemma status_form_dispatch:
  assumes "int_py order_id_str = Some order_id" and "symbol \<noteq> []"
  shows "status_form_submit ex bot_instance symbol order_id_str
           = Dispatched (GetOrderStatus (upper symbol) order_id)
               (get_order_status ex bot_instance (upper symbol) order_id)"
proof -
  from assms(1) have "order_id_str \<noteq> []" using int_py_empty by auto
  with assms show ?thesis
    by (simp add: status_form_submit_def Let_def upper_empty_iff)
qed

text \<open>
  C4 (amended). For a limit order whose quantity and price texts read as positive
  floats, the form calls \<open>place_limit_order\<close> with the float read from the price text, and
  the price submitted to the exchange is \<open>str\<close> of that float: its shortest \<open>repr\<close>, not
  the text the user gave. The text is submitted as given exactly when it is that \<open>repr\<close>.
\<close>

theorem C4_limit_price_is_repr:
  assumes "float_py quantity_str = Some quantity" and "\<not> le_zero quantity"
    and "float_py price_str = Some price" and "\<not> le_zero price"
  shows "order_form_submit ex bot_instance Limit symbol side quantity_str price_str
           = Dispatched (PlaceLimitOrder (upper symbol) side quantity price)
               (place_limit_order ex bot_instance (upper symbol) side quantity price)
       \<and> order_form_submit echo bot_instance Limit symbol side quantity_str price_str
           = Dispatched (PlaceLimitOrder (upper symbol) side quantity price)
               (Inr (limit_order_kwargs (upper symbol) side quantity price))
       \<and> map_of (limit_order_kwargs (upper symbol) side quantity price) ''price''
           = Some (JStr (float_repr price))
       \<and> (map_of (limit_order_kwargs (upper symbol) side quantity price) ''price''
            = Some (JStr price_str) \<longleftrightarrow> price_str = float_repr price)"
proof -
  have d: "order_form_submit ex bot_instance Limit symbol side quantity_str price_str
           = Dispatched (PlaceLimitOrder (upper symbol) side quantity price)
               (place_limit_order ex bot_instance (upper symbol) side quantity price)" for ex
    using assms by (rule order_form_limit_dispatch)
  have e: "place_limit_order echo bot_instance (upper symbol) side quantity price
             = Inr (limit_order_kwargs (upper symbol) side quantity price)"
    by (simp add: place_limit_order_def echo_def)
  have p: "map_of (limit_order_kwargs (upper symbol) side quantity price) ''price''
             = Some (JStr (float_repr price))"
    by (simp add: limit_order_kwargs_def)
  from p have q: "map_of (limit_order_kwargs (upper symbol) side quantity price) ''price''
            = Some (JStr price_str) \<longleftrightarrow> price_str = float_repr price"
    by auto
  from d [of ex] d [of echo] e p q show ?thesis by simp
qed

theorem C4_limit_price_is_repr_witness:
  "order_form_submit echo test_bot Limit ''BTCUSDT'' ''BUY'' ''0.001'' ''20000.5''
     = Dispatched
         (PlaceLimitOrder ''BTCUSDT'' ''BUY'' (Finite False 4611686018427388 (- 62))
            (Finite False 5497695577833472 (- 38)))
         (Inr [(''symbol'', JStr ''BTCUSDT''), (''side'', JStr ''BUY''), (''type'', JStr ''LIMIT''),
               (''timeInForce'', JStr ''GTC''),
               (''quantity'', JFloat (Finite False 4611686018427388 (- 62))),
               (''price'', JStr ''20000.5'')])"
proof -
  have a: "\<not> le_zero (Finite False 4611686018427388 (- 62))" by (simp add: le_zero_def)
  have b: "\<not> le_zero (Finite False 5497695577833472 (- 38))" by (simp add: le_zero_def)
  have "order_form_submit echo test_bot Limit ''BTCUSDT'' ''BUY'' ''0.001'' ''20000.5''
          = Dispatched
              (PlaceLimitOrder (upper ''BTCUSDT'') ''BUY'' (Finite False 4611686018427388 (- 62))
                 (Finite False 5497695577833472 (- 38)))
              (Inr (limit_order_kwargs (upper ''BTCUSDT'') ''BUY''
                      (Finite False 4611686018427388 (- 62))
                      (Finite False 5497695577833472 (- 38))))"
    using C4_limit_price_is_repr [OF float_py_0_001 a float_py_20000_5 b,
            of echo test_bot "''BTCUSDT''" "''BUY''"]
    by blast
  then show ?thesis
    by (simp add: limit_order_kwargs_def upper_BTCUSDT upper_BUY float_repr_20000_5
        ORDER_TYPE_LIMIT_def TIME_IN_FORCE_GTC_def)
qed

theorem C4_price_text_counterexample:
  "order_form_submit echo test_bot Limit ''BTCUSDT'' ''BUY'' ''0.001'' ''20000.50''
     = Dispatched
         (PlaceLimitOrder ''BTCUSDT'' ''BUY'' (Finite False 4611686018427388 (- 62))
            (Finite False 5497695577833472 (- 38)))
         (Inr [(''symbol'', JStr ''BTCUSDT''), (''side'', JStr ''BUY''), (''type'', JStr ''LIMIT''),
               (''timeInForce'', JStr ''GTC''),
               (''quantity'', JFloat (Finite False 4611686018427388 (- 62))),
               (''price'', JStr ''20000.5'')])
   \<and> ''20000.5'' \<noteq> ''20000.50''"
  by (simp add: order_form_submit_def Let_def float_py_0_001 float_py_20000_50 le_zero_def
      place_limit_order_def echo_def limit_order_kwargs_def upper_BTCUSDT upper_BUY
      float_repr_20000_5 ORDER_TYPE_LIMIT_def TIME_IN_FORCE_GTC_def)

text \<open>
  C9 (amended). A quantity text that is no float or reads as a float \<open><= 0\<close> is
  rejected by the order form, and so is such a price text of a limit order; an order id
  text that is no integer is rejected by the status form. In these cases no method of the
  bot_instance is called. The status form does not look at the sign of the order id: with a symbol
  and an order id text that reads as an integer, \<open>get_order_status\<close> is called with that
  integer, positive or not.
\<close>

theorem C9_validation:
  "((float_py quantity_str = None \<or> (\<exists>q. float_py quantity_str = Some q \<and> le_zero q)) \<longrightarrow>
      \<not> invokes_facade (order_form_submit ex bot_instance order_type symbol side quantity_str price_str))
   \<and> ((float_py price_str = None \<or> (\<exists>p. float_py price_str = Some p \<and> le_zero p)) \<longrightarrow>
      \<not> invokes_facade (order_form_submit ex bot_instance Limit symbol side quantity_str price_str))
   \<and> (int_py order_id_str = None \<longrightarrow>
      \<not> invokes_facade (status_form_submit ex bot_instance symbol order_id_str))
   \<and> (int_py order_id_str = Some order_id \<and> symbol \<noteq> [] \<longrightarrow>
      status_form_submit ex bot_instance symbol order_id_str
        = Dispatched (GetOrderStatus (upper symbol) order_id)
            (get_order_status ex bot_instance (upper symbol) order_id))"
proof (intro conjI impI)
  assume "float_py quantity_str = None \<or> (\<exists>q. float_py quantity_str = Some q \<and> le_zero q)"
  then show "\<not> invokes_facade
                 (order_form_submit ex bot_instance order_type symbol side quantity_str price_str)"
    by (rule order_form_rejects_quantity)
next
  assume "float_py price_str = None \<or> (\<exists>p. float_py price_str = Some p \<and> le_zero p)"
  then show "\<not> invokes_facade
                 (order_form_submit ex bot_instance Limit symbol side quantity_str price_str)"
    by (rule order_form_rejects_price)
next
  assume "int_py order_id_str = None"
  then show "\<not> invokes_facade (status_form_submit ex bot_instance symbol order_id_str)"
    by (rule status_form_rejects)
next
  assume "int_py order_id_str = Some order_id \<and> symbol \<noteq> []"
  then show "status_form_submit ex bot_instance symbol order_id_str
               = Dispatched (GetOrderStatus (upper symbol) order_id)
                   (get_order_status ex bot_instance (upper symbol) order_id)"
    by (simp add: status_form_dispatch)
qed

theorem C9_validation_witness:
  "\<not> invokes_facade (order_form_submit echo test_bot Market ''BTCUSDT'' ''BUY'' ''abc'' ''0'')
   \<and> \<not> invokes_facade (order_form_submit echo test_bot Market ''BTCUSDT'' ''BUY'' ''-1'' ''0'')
   \<and> \<not> invokes_facade (order_form_submit echo test_bot Limit ''BTCUSDT'' ''BUY'' ''0.001'' ''0'')
   \<and> \<not> invokes_facade (order_form_submit echo test_bot Limit ''BTCUSDT'' ''BUY'' ''0.001'' ''abc'')
   \<and> \<not> invokes_facade (status_form_submit echo test_bot ''BTCUSDT'' ''abc'')
   \<and> status_form_submit echo test_bot ''BTCUSDT'' ''-5''
       = Dispatched (GetOrderStatus ''BTCUSDT'' (- 5))
           (get_order_status echo test_bot ''BTCUSDT'' (- 5))"
  using
    C9_validation [of "''abc''" echo test_bot Market "''BTCUSDT''" "''BUY''" "''0''" "''abc''"]
    C9_validation [of "''-1''" echo test_bot Market "''BTCUSDT''" "''BUY''" "''0''" "''-5''" "- 5"]
    C9_validation [of "''0.001''" echo test_bot Limit "''BTCUSDT''" "''BUY''" "''0''"]
    C9_validation [of "''0.001''" echo test_bot Limit "''BTCUSDT''" "''BUY''" "''abc''"]
  by (simp add: float_py_abc float_py_minus_1 float_py_0 float_py_0_001 int_py_abc
      int_py_minus_5 le_zero_def upper_BTCUSDT)

theorem C9_order_id_counterexample:
  "status_form_submit echo test_bot ''BTCUSDT'' ''-5''
     = Dispatched (GetOrderStatus ''BTCUSDT'' (- 5))
         (Inr [(''symbol'', JStr ''BTCUSDT''), (''orderId'', JInt (- 5))])
   \<and> invokes_facade (status_form_submit echo test_bot ''BTCUSDT'' ''-5'')
   \<and> status_form_submit echo test_bot ''BTCUSDT'' ''0''
     = Dispatched (GetOrderStatus ''BTCUSDT'' 0)
         (Inr [(''symbol'', JStr ''BTCUSDT''), (''orderId'', JInt 0)])
   \<and> invokes_facade (status_form_submit echo test_bot ''BTCUSDT'' ''0'')"
  by (simp add: status_form_submit_def Let_def int_py_minus_5 int_py_0 get_order_status_def
      echo_def upper_BTCUSDT invokes_facade_def)

text \<open>
  \<open>nan\<close> reads as a float and \<open>nan <= 0\<close> is false, so the order form lets it through:
  it is not among the texts that \<open>float()\<close> rejects.
\<close>

lemma order_form_nan_quantity:
  "order_form_submit echo test_bot Market ''BTCUSDT'' ''BUY'' ''nan'' ''0''
     = Dispatched (PlaceMarketOrder ''BTCUSDT'' ''BUY'' NaN)
         (Inr [(''symbol'', JStr ''BTCUSDT''), (''side'', JStr ''BUY''), (''type'', JStr ''MARKET''),
               (''quantity'', JFloat NaN)])"
  by (simp add: order_form_submit_def Let_def float_py_nan le_zero_def place_market_order_def
      echo_def market_order_kwargs_def upper_BTCUSDT upper_BUY ORDER_TYPE_MARKET_def)

end
